theory Spec2Isabelle
  imports Complex_Main
begin

section \<open>Coordinates and the haversine distance\<close>

text \<open>
  The screen \<^verbatim>\<open>app/(tabs)/explore.tsx\<close> exists in two variants: one persists the explored
  points through AsyncStorage and draws a native overlay, the other persists them in an
  SQLite table and draws through a web view. Both share the type \<^verbatim>\<open>Coordinate\<close> and the
  function \<^verbatim>\<open>getDistance\<close>, word for word.

  JavaScript numbers are IEEE doubles. The model computes over the real numbers: it is the
  exact arithmetic that the doubles approximate, without rounding, NaN or signed zeros.
  What is proved of \<^verbatim>\<open>getDistance\<close> below is proved of that exact arithmetic. It carries
  over to the doubles where a comparison has a margin that rounding cannot close, as in
  the scenarios of this file, and not in general: for two antipodal points the doubles can
  round \<^verbatim>\<open>a_\<close> to a value just above 1, and then \<^verbatim>\<open>Math.sqrt(1 - a_)\<close> and the result are
  NaN, where the exact value is half the circumference.
\<close>

record Coordinate =
  latitude :: real
  longitude :: real

text \<open>\<^verbatim>\<open>const toRad = (deg: number) => (deg * Math.PI) / 180\<close>\<close>

definition toRad :: "real \<Rightarrow> real" where
  "toRad deg = (deg * pi) / 180"

text \<open>
  \<^verbatim>\<open>Math.atan2(y, x)\<close>: the angle of the point \<open>(x, y)\<close>, in \<open>(-\<pi>, \<pi>]\<close>, and \<open>0\<close> at the
  origin.
\<close>

definition atan2 :: "real \<Rightarrow> real \<Rightarrow> real" where
  "atan2 y x =
     (if 0 < x then arctan (y / x)
      else if x < 0 then (if 0 \<le> y then arctan (y / x) + pi else arctan (y / x) - pi)
      else if 0 < y then pi / 2
      else if y < 0 then - (pi / 2)
      else 0)"

text \<open>
  \<^verbatim>\<open>getDistance(a, b)\<close>, statement by statement. The source squares by multiplying, and
  its product of four factors associates to the left.
\<close>

definition getDistance :: "Coordinate \<Rightarrow> Coordinate \<Rightarrow> real" where
  "getDistance a b =
     (let R = 6371000;
          dLat = toRad (latitude b - latitude a);
          dLon = toRad (longitude b - longitude a);
          lat1 = toRad (latitude a);
          lat2 = toRad (latitude b);
          a' = sin (dLat / 2) * sin (dLat / 2) +
               cos lat1 * cos lat2 * sin (dLon / 2) * sin (dLon / 2);
          c = 2 * atan2 (sqrt a') (sqrt (1 - a'))
      in R * c)"

text \<open>The intermediate value \<^verbatim>\<open>a_\<close> of \<^verbatim>\<open>getDistance\<close>, named for the proofs below.\<close>

definition haversineTerm :: "Coordinate \<Rightarrow> Coordinate \<Rightarrow> real" where
  "haversineTerm a b =
     sin (toRad (latitude b - latitude a) / 2) * sin (toRad (latitude b - latitude a) / 2) +
     cos (toRad (latitude a)) * cos (toRad (latitude b)) *
       sin (toRad (longitude b - longitude a) / 2) * sin (toRad (longitude b - longitude a) / 2)"

text \<open>
  The formula as the specification words it: \<open>d = 2 R atan2(\<surd>h, \<surd>(1 - h))\<close> with
  \<open>h = sin\<^sup>2(\<Delta>lat/2) + cos(lat1) cos(lat2) sin\<^sup>2(\<Delta>lon/2)\<close>, angles in radians, and the
  Earth radius \<open>R\<close> of 6,371,000 metres.
\<close>

definition radians :: "real \<Rightarrow> real" where
  "radians deg = deg * (pi / 180)"

definition haversine_h :: "real \<Rightarrow> real \<Rightarrow> real \<Rightarrow> real \<Rightarrow> real" where
  "haversine_h lat1 lon1 lat2 lon2 =
     (sin ((lat2 - lat1) / 2))\<^sup>2 + cos lat1 * cos lat2 * (sin ((lon2 - lon1) / 2))\<^sup>2"

definition earthRadius :: real where
  "earthRadius = 6371000"

definition haversine_spec :: "Coordinate \<Rightarrow> Coordinate \<Rightarrow> real" where
  "haversine_spec a b =
     (let h = haversine_h (radians (latitude a)) (radians (longitude a))
                          (radians (latitude b)) (radians (longitude b))
      in 2 * earthRadius * atan2 (sqrt h) (sqrt (1 - h)))"

text \<open>
  The test of the fix callback, \<^verbatim>\<open>!explored.some((pt) => getDistance(pt, current) < 30)\<close>,
  for the array \<open>pts\<close> that the name \<^verbatim>\<open>explored\<close> denotes where the callback was created.
\<close>

definition isNew :: "Coordinate list \<Rightarrow> Coordinate \<Rightarrow> bool" where
  "isNew pts current = (\<not> list_ex (\<lambda>pt. getDistance pt current < 30) pts)"

text \<open>Every earlier point of the list is at 30 metres or more from every later one.\<close>

fun separated :: "Coordinate list \<Rightarrow> bool" where
  "separated [] = True"
| "separated (p # ps) = (list_all (\<lambda>q. 30 \<le> getDistance p q) ps \<and> separated ps)"


section \<open>The component state\<close>

text \<open>
  \<^verbatim>\<open>Location.watchPositionAsync(options, callback)\<close> returns a subscription that calls
  \<^verbatim>\<open>callback\<close> at every fix. The callback is the arrow function written inside
  \<^verbatim>\<open>startTracking\<close>; the name \<^verbatim>\<open>explored\<close> in its body is the constant
  \<^verbatim>\<open>const [explored, setExplored] = useState(...)\<close> of the render in which \<^verbatim>\<open>startTracking\<close>
  was created, that is, the array the state held when the Start button was pressed. Later
  renders bind new constants, but the subscription keeps calling the same function object,
  and no effect subscribes again. A subscription is therefore modelled by the one thing its
  callback closes over.
\<close>

datatype Subscription = Subscription (capturedExplored: "Coordinate list")

text \<open>The four \<^verbatim>\<open>useState\<close> cells that both variants of \<^verbatim>\<open>ExploreScreen\<close> declare.\<close>

record Screen =
  location :: "Coordinate option"
  explored :: "Coordinate list"
  isTracking :: bool
  watcher :: "Subscription option"

section \<open>The AsyncStorage variant\<close>

text \<open>
  The store holds at most one value under the key \<^verbatim>\<open>"explored-areas"\<close>: the JSON text of a
  coordinate array, modelled by the array itself. Every call on the store is kept in
  \<open>storageCalls\<close>, in the order the program makes them. A call that rejects leaves the
  value as it was; the program awaits none of the writes and handles no rejection, so a
  rejected call surfaces as an unhandled promise rejection and nowhere else:
  \<open>unhandledRejections\<close> keeps these.
\<close>

datatype StorageCall = GetItem | SetItem "Coordinate list" | RemoveItem

record AsyncWorld = Screen +
  storage :: "Coordinate list option"
  storageCalls :: "StorageCall list"
  unhandledRejections :: "StorageCall list"

definition initialAsync :: AsyncWorld where
  "initialAsync = \<lparr>location = None, explored = [], isTracking = False, watcher = None,
                    storage = None, storageCalls = [], unhandledRejections = []\<rparr>"

text \<open>What a later launch would load: nothing under the key reads as no points.\<close>

definition storedPoints :: "Coordinate list option \<Rightarrow> Coordinate list" where
  "storedPoints v = (case v of None \<Rightarrow> [] | Some pts \<Rightarrow> pts)"

text \<open>
  The effect on \<^verbatim>\<open>[explored]\<close>: \<^verbatim>\<open>AsyncStorage.setItem("explored-areas", JSON.stringify(explored))\<close>,
  run at mount and after every render in which \<^verbatim>\<open>setExplored\<close> installed a new array.
  \<open>ok\<close> tells whether the write resolves.
\<close>

definition persistExplored :: "bool \<Rightarrow> AsyncWorld \<Rightarrow> AsyncWorld" where
  "persistExplored ok w =
     (let w1 = w\<lparr>storageCalls := storageCalls w @ [SetItem (explored w)]\<rparr>
      in if ok then w1\<lparr>storage := Some (explored w)\<rparr>
         else w1\<lparr>unhandledRejections := unhandledRejections w1 @ [SetItem (explored w)]\<rparr>)"

text \<open>
  The two effects at mount. The first starts
  \<^verbatim>\<open>const saved = await AsyncStorage.getItem(...); if (saved) setExplored(JSON.parse(saved))\<close>;
  the second, the persistence effect, at once writes the array the state starts with. The
  store serves the calls in the order they were made, so the read sees the value from
  before that write. When it resolves with a value, \<^verbatim>\<open>setExplored\<close> installs the saved array
  and the persistence effect runs once more. \<open>getOk\<close>, \<open>setOk1\<close> and \<open>setOk2\<close> tell whether
  the read and the two writes resolve.
\<close>

definition mountAsync :: "bool \<Rightarrow> bool \<Rightarrow> bool \<Rightarrow> AsyncWorld \<Rightarrow> AsyncWorld" where
  "mountAsync getOk setOk1 setOk2 w =
     (let saved = storage w;
          w1 = w\<lparr>storageCalls := storageCalls w @ [GetItem]\<rparr>;
          w2 = persistExplored setOk1 w1
      in if \<not> getOk then w2\<lparr>unhandledRejections := unhandledRejections w2 @ [GetItem]\<rparr>
         else case saved of
                None \<Rightarrow> w2
              | Some pts \<Rightarrow> persistExplored setOk2 (w2\<lparr>explored := pts\<rparr>))"

text \<open>
  The fix callback of the AsyncStorage variant, for a subscription \<open>sub\<close>, followed by the
  persistence effect when it called \<^verbatim>\<open>setExplored\<close>.
\<close>

definition onFixAsync :: "Subscription \<Rightarrow> bool \<Rightarrow> Coordinate \<Rightarrow> AsyncWorld \<Rightarrow> AsyncWorld" where
  "onFixAsync sub setOk current w =
     (let w1 = w\<lparr>location := Some current\<rparr>
      in if isNew (capturedExplored sub) current
         then persistExplored setOk (w1\<lparr>explored := explored w1 @ [current]\<rparr>)
         else w1)"

text \<open>\<^verbatim>\<open>startTracking\<close>; \<open>granted\<close> is the outcome of the permission request.\<close>

definition startTrackingAsync :: "bool \<Rightarrow> AsyncWorld \<Rightarrow> AsyncWorld" where
  "startTrackingAsync granted w =
     (if \<not> granted then w
      else w\<lparr>watcher := Some (Subscription (explored w)), isTracking := True\<rparr>)"

definition stopTrackingAsync :: "AsyncWorld \<Rightarrow> AsyncWorld" where
  "stopTrackingAsync w = w\<lparr>watcher := None, isTracking := False\<rparr>"

text \<open>\<^verbatim>\<open>const toggleTracking = () => (isTracking ? stopTracking() : startTracking())\<close>\<close>

definition toggleTrackingAsync :: "bool \<Rightarrow> AsyncWorld \<Rightarrow> AsyncWorld" where
  "toggleTrackingAsync granted w =
     (if isTracking w then stopTrackingAsync w else startTrackingAsync granted w)"

text \<open>A fix reaches the callback of the live subscription; without one it reaches nothing.\<close>

definition deliverFixAsync :: "bool \<Rightarrow> Coordinate \<Rightarrow> AsyncWorld \<Rightarrow> AsyncWorld" where
  "deliverFixAsync setOk current w =
     (case watcher w of None \<Rightarrow> w | Some sub \<Rightarrow> onFixAsync sub setOk current w)"

text \<open>Fixes delivered one after the other, each with the outcome of its write.\<close>

fun deliverFixesAsync :: "(Coordinate \<times> bool) list \<Rightarrow> AsyncWorld \<Rightarrow> AsyncWorld" where
  "deliverFixesAsync [] w = w"
| "deliverFixesAsync ((c, setOk) # fs) w = deliverFixesAsync fs (deliverFixAsync setOk c w)"

text \<open>
  \<^verbatim>\<open>reset\<close>: \<^verbatim>\<open>setExplored([])\<close>, then \<^verbatim>\<open>AsyncStorage.removeItem("explored-areas")\<close>, then, after
  the render, the persistence effect writes the empty array. \<open>rmOk\<close> and \<open>setOk\<close> tell
  whether the removal and the write resolve.
\<close>

definition resetAsync :: "bool \<Rightarrow> bool \<Rightarrow> AsyncWorld \<Rightarrow> AsyncWorld" where
  "resetAsync rmOk setOk w =
     (let w1 = w\<lparr>explored := []\<rparr>;
          w2 = w1\<lparr>storageCalls := storageCalls w1 @ [RemoveItem]\<rparr>;
          w3 = (if rmOk then w2\<lparr>storage := None\<rparr>
                else w2\<lparr>unhandledRejections := unhandledRejections w2 @ [RemoveItem]\<rparr>)
      in persistExplored setOk w3)"

section \<open>The SQLite variant\<close>

text \<open>
  The table \<^verbatim>\<open>explored_points (id INTEGER PRIMARY KEY AUTOINCREMENT, latitude REAL, longitude REAL, timestamp INTEGER)\<close>
  of the database \<^verbatim>\<open>exploration.db\<close>. \<open>journal\<close> keeps every statement the program hands to
  the database, also those that fail. A statement that fails changes no row and makes the
  \<^verbatim>\<open>await\<close> throw; the flag \<open>ok\<close> of each operation tells which of the two happens.
\<close>

record Row =
  row_id :: nat
  row_latitude :: real
  row_longitude :: real
  row_timestamp :: int

datatype Statement = CreateTable | InsertPoint real real int | SelectAll | DeleteAll

datatype DbError = SqlError

record Db =
  rows :: "Row list"
  autoincrement :: nat
  journal :: "Statement list"

definition emptyDb :: Db where
  "emptyDb = \<lparr>rows = [], autoincrement = 0, journal = []\<rparr>"

text \<open>\<^verbatim>\<open>db.execAsync("CREATE TABLE IF NOT EXISTS explored_points (...)")\<close>\<close>

definition createTable :: "bool \<Rightarrow> Db \<Rightarrow> (DbError + unit) \<times> Db" where
  "createTable ok d =
     (let d1 = d\<lparr>journal := journal d @ [CreateTable]\<rparr>
      in if ok then (Inr (), d1) else (Inl SqlError, d1))"

text \<open>\<^verbatim>\<open>db.runAsync("INSERT INTO explored_points (latitude, longitude, timestamp) VALUES (?, ?, ?)", [lat, lon, now])\<close>\<close>

definition insertPoint :: "bool \<Rightarrow> real \<Rightarrow> real \<Rightarrow> int \<Rightarrow> Db \<Rightarrow> (DbError + unit) \<times> Db" where
  "insertPoint ok lat lon now d =
     (let d1 = d\<lparr>journal := journal d @ [InsertPoint lat lon now]\<rparr>
      in if ok
         then (Inr (),
               d1\<lparr>rows := rows d1 @ [\<lparr>row_id = Suc (autoincrement d1), row_latitude = lat,
                                         row_longitude = lon, row_timestamp = now\<rparr>],
                   autoincrement := Suc (autoincrement d1)\<rparr>)
         else (Inl SqlError, d1))"

definition rowCoordinate :: "Row \<Rightarrow> Coordinate" where
  "rowCoordinate r = \<lparr>latitude = row_latitude r, longitude = row_longitude r\<rparr>"

text \<open>\<^verbatim>\<open>db.getAllAsync("SELECT latitude, longitude FROM explored_points")\<close>\<close>

definition selectAll :: "bool \<Rightarrow> Db \<Rightarrow> (DbError + Coordinate list) \<times> Db" where
  "selectAll ok d =
     (let d1 = d\<lparr>journal := journal d @ [SelectAll]\<rparr>
      in if ok then (Inr (map rowCoordinate (rows d1)), d1) else (Inl SqlError, d1))"

text \<open>\<^verbatim>\<open>db.runAsync("DELETE FROM explored_points")\<close>\<close>

definition deleteAll :: "bool \<Rightarrow> Db \<Rightarrow> (DbError + unit) \<times> Db" where
  "deleteAll ok d =
     (let d1 = d\<lparr>journal := journal d @ [DeleteAll]\<rparr>
      in if ok then (Inr (), d1\<lparr>rows := []\<rparr>) else (Inl SqlError, d1))"

text \<open>The points the table holds, in the order of their rows.\<close>

definition persistedPoints :: "Db \<Rightarrow> Coordinate list" where
  "persistedPoints d = map rowCoordinate (rows d)"

text \<open>
  Every handler of the SQLite variant wraps its database calls in \<^verbatim>\<open>try\<close> and, in
  \<^verbatim>\<open>catch (e)\<close>, writes the error to the console and goes on. The console is the one place
  where an error of a handler shows: \<open>consoleLog\<close> keeps the lines the handlers write, an
  error line for each error caught.
\<close>

datatype LogEntry =
    GpsUpdate real real
  | DbInitError DbError
  | InsertError DbError
  | ResetError DbError
  | SimError DbError
  | ReloadError DbError

record SqlWorld = Screen +
  db :: Db
  consoleLog :: "LogEntry list"

definition initialSql :: SqlWorld where
  "initialSql = \<lparr>location = None, explored = [], isTracking = False, watcher = None,
                  db = emptyDb, consoleLog = []\<rparr>"

text \<open>
  The mount effect \<^verbatim>\<open>initDB\<close>: create the table, read it, \<^verbatim>\<open>setExplored(result)\<close>; one
  \<^verbatim>\<open>try\<close> block around the three, whose \<^verbatim>\<open>catch\<close> logs \<^verbatim>\<open>"DB Init Error:"\<close>.
\<close>

definition initDB :: "bool \<Rightarrow> bool \<Rightarrow> SqlWorld \<Rightarrow> SqlWorld" where
  "initDB createOk selectOk w =
     (case createTable createOk (db w) of
        (Inl e, d1) \<Rightarrow> w\<lparr>db := d1, consoleLog := consoleLog w @ [DbInitError e]\<rparr>
      | (Inr u, d1) \<Rightarrow>
          (case selectAll selectOk d1 of
             (Inl e, d2) \<Rightarrow> w\<lparr>db := d2, consoleLog := consoleLog w @ [DbInitError e]\<rparr>
           | (Inr result, d2) \<Rightarrow> w\<lparr>explored := result, db := d2\<rparr>))"

text \<open>
  The fix callback of the SQLite variant, for a subscription \<open>sub\<close>: the line
  \<^verbatim>\<open>"GPS Update:"\<close>, \<^verbatim>\<open>setLocation(current)\<close>, the test, and for a new point the insert and
  then \<^verbatim>\<open>setExplored((prev) => [...prev, current])\<close> inside one \<^verbatim>\<open>try\<close> block, whose
  \<^verbatim>\<open>catch\<close> logs \<^verbatim>\<open>"Insert Error"\<close>. \<open>now\<close> is the value of \<^verbatim>\<open>Date.now()\<close>.
\<close>

definition onFixSql :: "Subscription \<Rightarrow> bool \<Rightarrow> int \<Rightarrow> Coordinate \<Rightarrow> SqlWorld \<Rightarrow> SqlWorld" where
  "onFixSql sub insertOk now current w =
     (let w0 = w\<lparr>consoleLog :=
                     consoleLog w @ [GpsUpdate (latitude current) (longitude current)]\<rparr>;
          w1 = w0\<lparr>location := Some current\<rparr>
      in if isNew (capturedExplored sub) current
         then (case insertPoint insertOk (latitude current) (longitude current) now (db w1) of
                 (Inl e, d1) \<Rightarrow> w1\<lparr>db := d1, consoleLog := consoleLog w1 @ [InsertError e]\<rparr>
               | (Inr u, d1) \<Rightarrow> w1\<lparr>explored := explored w1 @ [current], db := d1\<rparr>)
         else w1)"

definition startTrackingSql :: "bool \<Rightarrow> SqlWorld \<Rightarrow> SqlWorld" where
  "startTrackingSql granted w =
     (if \<not> granted then w
      else w\<lparr>watcher := Some (Subscription (explored w)), isTracking := True\<rparr>)"

definition stopTrackingSql :: "SqlWorld \<Rightarrow> SqlWorld" where
  "stopTrackingSql w = w\<lparr>watcher := None, isTracking := False\<rparr>"

text \<open>\<^verbatim>\<open>const toggleTracking = () => (isTracking ? stopTracking() : startTracking())\<close>\<close>

definition toggleTrackingSql :: "bool \<Rightarrow> SqlWorld \<Rightarrow> SqlWorld" where
  "toggleTrackingSql granted w =
     (if isTracking w then stopTrackingSql w else startTrackingSql granted w)"

definition deliverFixSql :: "bool \<Rightarrow> int \<Rightarrow> Coordinate \<Rightarrow> SqlWorld \<Rightarrow> SqlWorld" where
  "deliverFixSql insertOk now current w =
     (case watcher w of None \<Rightarrow> w | Some sub \<Rightarrow> onFixSql sub insertOk now current w)"

text \<open>Fixes delivered one after the other, each with the outcome and the time of its insert.\<close>

fun deliverFixesSql :: "(Coordinate \<times> bool \<times> int) list \<Rightarrow> SqlWorld \<Rightarrow> SqlWorld" where
  "deliverFixesSql [] w = w"
| "deliverFixesSql ((c, insertOk, now) # fs) w =
     deliverFixesSql fs (deliverFixSql insertOk now c w)"

text \<open>
  \<^verbatim>\<open>reset\<close> opens an alert with the buttons Cancel and Clear. Only the handler of Clear
  does anything: the delete, then \<^verbatim>\<open>setExplored([])\<close>, in one \<^verbatim>\<open>try\<close> block, whose
  \<^verbatim>\<open>catch\<close> logs \<^verbatim>\<open>"Reset Error"\<close>.
\<close>

datatype AlertButton = Cancel | Clear

definition resetSql :: "AlertButton \<Rightarrow> bool \<Rightarrow> SqlWorld \<Rightarrow> SqlWorld" where
  "resetSql pressed deleteOk w =
     (case pressed of
        Cancel \<Rightarrow> w
      | Clear \<Rightarrow>
          (case deleteAll deleteOk (db w) of
             (Inl e, d1) \<Rightarrow> w\<lparr>db := d1, consoleLog := consoleLog w @ [ResetError e]\<rparr>
           | (Inr u, d1) \<Rightarrow> w\<lparr>explored := [], db := d1\<rparr>))"

text \<open>
  The button Simulate Walk. \<^verbatim>\<open>location?.latitude || 22.3149\<close> takes the fallback when there
  is no location and also when the coordinate is \<open>0\<close>, which JavaScript counts as false.
\<close>

definition baseLat :: "Coordinate option \<Rightarrow> real" where
  "baseLat loc =
     (case loc of None \<Rightarrow> 22.3149
      | Some l \<Rightarrow> if latitude l = 0 then 22.3149 else latitude l)"

definition baseLon :: "Coordinate option \<Rightarrow> real" where
  "baseLon loc =
     (case loc of None \<Rightarrow> 87.3105
      | Some l \<Rightarrow> if longitude l = 0 then 87.3105 else longitude l)"

text \<open>\<^verbatim>\<open>for (let i = 0; i < 5; i++) newPoints.push({...})\<close>\<close>

definition newPoints :: "Coordinate option \<Rightarrow> Coordinate list" where
  "newPoints loc =
     map (\<lambda>i. \<lparr>latitude = baseLat loc + real i * 0.0002,
               longitude = baseLon loc + real i * 0.0002\<rparr>) [0..<5]"

text \<open>
  \<^verbatim>\<open>for (const p of newPoints) await db.runAsync(INSERT ...)\<close>: the first insert that fails
  ends the loop, and the \<^verbatim>\<open>catch\<close> around the loop and the update of the state logs
  \<^verbatim>\<open>"Sim Error"\<close>. \<open>oks i\<close> and \<open>nows i\<close> are the outcome and the time of the insert number
  \<open>i\<close>.
\<close>

fun insertEach ::
  "(nat \<Rightarrow> bool) \<Rightarrow> (nat \<Rightarrow> int) \<Rightarrow> nat \<Rightarrow> Coordinate list \<Rightarrow> Db \<Rightarrow> (DbError + unit) \<times> Db" where
  "insertEach oks nows i [] d = (Inr (), d)"
| "insertEach oks nows i (p # ps) d =
     (case insertPoint (oks i) (latitude p) (longitude p) (nows i) d of
        (Inl e, d1) \<Rightarrow> (Inl e, d1)
      | (Inr u, d1) \<Rightarrow> insertEach oks nows (Suc i) ps d1)"

definition simulateWalk :: "(nat \<Rightarrow> bool) \<Rightarrow> (nat \<Rightarrow> int) \<Rightarrow> SqlWorld \<Rightarrow> SqlWorld" where
  "simulateWalk oks nows w =
     (let pts = newPoints (location w)
      in case insertEach oks nows 0 pts (db w) of
           (Inl e, d1) \<Rightarrow> w\<lparr>db := d1, consoleLog := consoleLog w @ [SimError e]\<rparr>
         | (Inr u, d1) \<Rightarrow> w\<lparr>explored := explored w @ pts, db := d1\<rparr>)"

text \<open>
  The button Sync Web, the reload: \<^verbatim>\<open>setExplored([])\<close> at once, and half a second later the
  read and \<^verbatim>\<open>setExplored(result)\<close> in a \<^verbatim>\<open>try\<close> block, whose \<^verbatim>\<open>catch\<close> logs
  \<^verbatim>\<open>"Reload Error"\<close>.
\<close>

definition reload :: "bool \<Rightarrow> SqlWorld \<Rightarrow> SqlWorld" where
  "reload selectOk w =
     (let w1 = w\<lparr>explored := []\<rparr>
      in case selectAll selectOk (db w1) of
           (Inl e, d1) \<Rightarrow> w1\<lparr>db := d1, consoleLog := consoleLog w1 @ [ReloadError e]\<rparr>
         | (Inr result, d1) \<Rightarrow> w1\<lparr>explored := result, db := d1\<rparr>)"

section \<open>Runs and scenarios\<close>

text \<open>
  A run of the SQLite variant: presses of the Start/Stop button, each with the outcome of
  the permission request it may make, fixes, each with the outcome and the time of its
  insert, and presses of Simulate Walk whose five inserts all succeed.
\<close>

datatype Event = Toggle bool | Fix Coordinate bool int | Walk "nat \<Rightarrow> int"

fun runEvents :: "Event list \<Rightarrow> SqlWorld \<Rightarrow> SqlWorld" where
  "runEvents [] w = w"
| "runEvents (Toggle granted # es) w = runEvents es (toggleTrackingSql granted w)"
| "runEvents (Fix c insertOk now # es) w = runEvents es (deliverFixSql insertOk now c w)"
| "runEvents (Walk nows # es) w = runEvents es (simulateWalk (\<lambda>i. True) nows w)"

text \<open>
  The coordinates of the scenarios of the specification: the fallback position of the
  screen, the second fix of the 27-metre scenario, and a point one ten-thousandth of a
  degree north of the first.
\<close>

definition kgp :: Coordinate where
  "kgp = \<lparr>latitude = 22.3149, longitude = 87.3105\<rparr>"

definition kgpNear :: Coordinate where
  "kgpNear = \<lparr>latitude = 22.3151, longitude = 87.3107\<rparr>"

definition kgpStep :: Coordinate where
  "kgpStep = \<lparr>latitude = 22.3150, longitude = 87.3105\<rparr>"

text \<open>Each variant after a fresh start, Start pressed with permission, and one fix at \<open>kgp\<close>.\<close>

definition kgpSqlOnce :: SqlWorld where
  "kgpSqlOnce = deliverFixSql True 0 kgp (startTrackingSql True initialSql)"

definition kgpAsyncOnce :: AsyncWorld where
  "kgpAsyncOnce = deliverFixAsync True kgp (startTrackingAsync True initialAsync)"

text \<open>
  A position at 60 degrees north, the point that Simulate Walk generates next to it, and
  the SQLite variant after a fresh start, Start and one fix there.
\<close>

definition north60 :: Coordinate where
  "north60 = \<lparr>latitude = 60, longitude = 25\<rparr>"

definition north60Step :: Coordinate where
  "north60Step = \<lparr>latitude = 60.0002, longitude = 25.0002\<rparr>"

definition north60Sql :: SqlWorld where
  "north60Sql = deliverFixSql True 0 north60 (startTrackingSql True initialSql)"

section \<open>Bounds on sine, cosine and \<open>\<pi>\<close>\<close>

lemma sin_sum5: "(\<Sum>m<5. sin_coeff m * (x::real) ^ m) = x - x ^ 3 / 6"
proof -
  have "{..<5::nat} = {0, 1, 2, 3, 4}" by auto
  then show ?thesis
    by (simp add: sin_coeff_def fact_numeral)
qed

lemma sin_bound5: "\<bar>sin (x::real) - (x - x ^ 3 / 6)\<bar> \<le> \<bar>x\<bar> ^ 5 / 120"
  using Maclaurin_sin_bound [of x 5] unfolding sin_sum5
  by (simp add: fact_numeral)

lemma sin_upper5: "sin (x::real) \<le> x - x ^ 3 / 6 + \<bar>x\<bar> ^ 5 / 120"
  using sin_bound5 [of x] by linarith

lemma sin_lower5: "(x::real) - x ^ 3 / 6 - \<bar>x\<bar> ^ 5 / 120 \<le> sin x"
  using sin_bound5 [of x] by linarith

lemma sin_sq_le: "sin x * sin x \<le> x * x" for x :: real
proof -
  have "\<bar>sin x\<bar> \<le> \<bar>x\<bar>" by (rule abs_sin_x_le_abs_x)
  then have "(sin x)\<^sup>2 \<le> x\<^sup>2" by (simp only: abs_le_square_iff)
  then show ?thesis by (simp add: power2_eq_square)
qed

lemma cos_lower2: "1 - (x::real)\<^sup>2 / 2 \<le> cos x"
proof -
  have "(sin (x / 2))\<^sup>2 \<le> (x / 2)\<^sup>2"
    using sin_sq_le [of "x / 2"] by (simp add: power2_eq_square)
  moreover have "cos x = 1 - 2 * (sin (x / 2))\<^sup>2"
    using cos_double_sin [of "x / 2"] by simp
  ultimately show ?thesis by (simp add: power_divide)
qed

text \<open>The sine of \<open>\<pi>/6\<close> is one half, and the sine increases up to \<open>\<pi>/2\<close>.\<close>

lemma pi_gt_314: "3.14 < pi"
proof -
  have "sin (3.14 / 6 :: real) < 1 / 2"
    using sin_upper5 [of "3.14 / 6"] by (simp add: power_divide)
  also have "\<dots> = sin (pi / 6)" by (simp add: sin_30)
  finally have "sin (3.14 / 6 :: real) < sin (pi / 6)" .
  moreover have "(3.14 / 6 :: real) \<le> pi / 2" "pi / 6 \<le> pi / 2"
    "- (pi / 2) \<le> pi / 6" "- (pi / 2) \<le> (3.14 / 6 :: real)"
    using pi_ge_two by simp_all
  ultimately have "(3.14 / 6 :: real) < pi / 6"
    by (simp add: sin_mono_less_eq)
  then show ?thesis by simp
qed

lemma pi_lt_315: "pi < 3.15"
proof -
  have "1 / 2 < sin (3.15 / 6 :: real)"
    using sin_lower5 [of "3.15 / 6"] by (simp add: power_divide)
  then have "sin (pi / 6) < sin (3.15 / 6 :: real)" by (simp add: sin_30)
  moreover have "(3.15 / 6 :: real) \<le> pi / 2" "pi / 6 \<le> pi / 2"
    "- (pi / 2) \<le> pi / 6" "- (pi / 2) \<le> (3.15 / 6 :: real)"
    using pi_ge_two by simp_all
  ultimately have "pi / 6 < (3.15 / 6 :: real)"
    by (simp add: sin_mono_less_eq)
  then show ?thesis by simp
qed

lemma arcsin_ge_self:
  assumes "0 \<le> y" "y \<le> 1"
  shows "y \<le> arcsin y"
proof -
  have "0 \<le> arcsin y" using assms by (simp add: arcsin_nonneg)
  then have "sin (arcsin y) \<le> arcsin y" by (rule sin_x_le_x)
  then show ?thesis using assms by simp
qed

section \<open>The distance function\<close>

text \<open>
  Between square roots of \<open>h\<close> and \<open>1 - h\<close> with \<open>h\<close> in the unit interval,
  \<^verbatim>\<open>Math.atan2\<close> is the arc sine of the first.
\<close>

lemma atan2_sqrt:
  assumes "0 \<le> h" "h \<le> 1"
  shows "atan2 (sqrt h) (sqrt (1 - h)) = arcsin (sqrt h)"
proof (cases "h = 1")
  case True
  then show ?thesis by (simp add: atan2_def)
next
  case False
  with assms have lt: "h < 1" by simp
  then have pos: "0 < sqrt (1 - h)" by simp
  have "sqrt h < 1" using lt by simp
  moreover have "- 1 < sqrt h"
    using assms real_sqrt_ge_zero [of h] by linarith
  ultimately have "arcsin (sqrt h) = arctan (sqrt h / sqrt (1 - (sqrt h)\<^sup>2))"
    using arcsin_arctan [of "sqrt h"] by simp
  also have "(sqrt h)\<^sup>2 = h" using assms by simp
  finally show ?thesis using pos by (simp add: atan2_def)
qed

lemma haversine_identity:
  "(sin ((q - p) / 2))\<^sup>2 + cos p * cos q = (cos ((p + q) / 2))\<^sup>2" for p q :: real
proof -
  have d: "sin ((q - p) / 2) = sin (q / 2) * cos (p / 2) - cos (q / 2) * sin (p / 2)"
    by (simp add: diff_divide_distrib sin_diff)
  have s: "cos ((p + q) / 2) = cos (p / 2) * cos (q / 2) - sin (p / 2) * sin (q / 2)"
    by (simp add: add_divide_distrib cos_add)
  have p: "cos p = (cos (p / 2))\<^sup>2 - (sin (p / 2))\<^sup>2"
    using cos_double [of "p / 2"] by simp
  have q: "cos q = (cos (q / 2))\<^sup>2 - (sin (q / 2))\<^sup>2"
    using cos_double [of "q / 2"] by simp
  show ?thesis unfolding d s p q by algebra
qed

text \<open>
  In exact arithmetic the value \<^verbatim>\<open>a_\<close> lies in the unit interval for all inputs, so both
  square roots of \<^verbatim>\<open>getDistance\<close> have an argument that is not negative. The doubles of the
  program can leave the interval by rounding (see the first section).
\<close>

lemma haversineTerm_range: "0 \<le> haversineTerm a b \<and> haversineTerm a b \<le> 1"
proof -
  define p where "p = toRad (latitude a)"
  define q where "q = toRad (latitude b)"
  define t where "t = (sin (toRad (longitude b - longitude a) / 2))\<^sup>2"
  define u where "u = (sin ((q - p) / 2))\<^sup>2"
  define v where "v = (cos ((p + q) / 2))\<^sup>2"
  have qp: "toRad (latitude b - latitude a) = q - p"
    by (simp add: p_def q_def toRad_def algebra_simps diff_divide_distrib)
  have h: "haversineTerm a b = u + cos p * cos q * t"
    by (simp add: haversineTerm_def qp p_def q_def t_def u_def power2_eq_square)
  have cc: "cos p * cos q = v - u"
    using haversine_identity [of q p] by (simp add: u_def v_def)
  have h': "haversineTerm a b = (1 - t) * u + t * v"
    unfolding h cc by (simp add: algebra_simps)
  have t: "0 \<le> t" "t \<le> 1" by (simp_all add: t_def abs_square_le_1)
  have u: "0 \<le> u" "u \<le> 1" by (simp_all add: u_def abs_square_le_1)
  have v: "0 \<le> v" "v \<le> 1" by (simp_all add: v_def abs_square_le_1)
  have "0 \<le> (1 - t) * u" "0 \<le> t * v" using t u v by simp_all
  moreover have "(1 - t) * u \<le> (1 - t) * 1" using t u by (intro mult_left_mono) simp_all
  moreover have "t * v \<le> t * 1" using t v by (intro mult_left_mono) simp_all
  ultimately show ?thesis unfolding h' by simp
qed

lemma getDistance_arcsin: "getDistance a b = 12742000 * arcsin (sqrt (haversineTerm a b))"
proof -
  have "getDistance a b =
        6371000 * (2 * atan2 (sqrt (haversineTerm a b)) (sqrt (1 - haversineTerm a b)))"
    by (simp add: getDistance_def haversineTerm_def Let_def)
  then show ?thesis using haversineTerm_range [of a b] by (simp add: atan2_sqrt)
qed

lemma getDistance_self: "getDistance a a = 0"
  by (simp add: getDistance_def toRad_def atan2_def)

lemma haversineTerm_sym: "haversineTerm a b = haversineTerm b a"
proof -
  have 1: "sin (toRad (latitude b - latitude a) / 2) = - sin (toRad (latitude a - latitude b) / 2)"
    by (metis sin_minus minus_diff_eq toRad_def minus_divide_left mult_minus_left)
  have 2: "sin (toRad (longitude b - longitude a) / 2) = - sin (toRad (longitude a - longitude b) / 2)"
    by (metis sin_minus minus_diff_eq toRad_def minus_divide_left mult_minus_left)
  show ?thesis unfolding haversineTerm_def 1 2 by (simp add: mult.commute)
qed

lemma getDistance_sym: "getDistance a b = getDistance b a"
  by (simp add: getDistance_arcsin haversineTerm_sym [of a b])

lemma getDistance_nonneg: "0 \<le> getDistance a b"
  using haversineTerm_range [of a b] by (simp add: getDistance_arcsin arcsin_nonneg)

text \<open>Two tests on \<^verbatim>\<open>a_\<close> that decide the comparison with 30 metres.\<close>

lemma getDistance_ge_30:
  assumes "(15 / 6371000)\<^sup>2 \<le> haversineTerm a b"
  shows "30 \<le> getDistance a b"
proof -
  have r: "0 \<le> haversineTerm a b" "haversineTerm a b \<le> 1"
    using haversineTerm_range [of a b] by simp_all
  have "15 / 6371000 \<le> sqrt (haversineTerm a b)"
    using assms by (rule real_le_rsqrt)
  also have "\<dots> \<le> arcsin (sqrt (haversineTerm a b))"
    using r by (intro arcsin_ge_self) simp_all
  finally show ?thesis by (simp add: getDistance_arcsin)
qed

lemma getDistance_less_30:
  assumes "haversineTerm a b \<le> 5 / 10 ^ 12"
  shows "getDistance a b < 30"
proof -
  have r: "0 \<le> haversineTerm a b" "haversineTerm a b \<le> 1"
    using haversineTerm_range [of a b] by simp_all
  have "haversineTerm a b \<le> (22361 / 10 ^ 10)\<^sup>2"
    using assms by (simp add: power_divide)
  then have "sqrt (haversineTerm a b) \<le> 22361 / 10 ^ 10"
    by (intro real_le_lsqrt) simp_all
  also have "\<dots> \<le> sin (23 / 10 ^ 7 :: real)"
    using sin_lower5 [of "23 / 10 ^ 7"] by (simp add: power_divide)
  finally have "sqrt (haversineTerm a b) \<le> sin (23 / 10 ^ 7 :: real)" .
  moreover have "(23 / 10 ^ 7 :: real) \<le> pi / 2" "- pi / 2 \<le> (23 / 10 ^ 7 :: real)"
    using pi_ge_two by simp_all
  moreover have "- 1 \<le> sqrt (haversineTerm a b)" "sqrt (haversineTerm a b) \<le> 1"
    using r by (simp_all add: order_trans [of "- 1" 0])
  ultimately have "arcsin (sqrt (haversineTerm a b)) \<le> 23 / 10 ^ 7"
    using arcsin_le_iff [of "sqrt (haversineTerm a b)" "23 / 10 ^ 7"] by blast
  then show ?thesis by (simp add: getDistance_arcsin)
qed

section \<open>The distances of the scenarios\<close>

lemma sin_small_lower: "17444 / 10 ^ 10 \<le> sin (pi / 1800000)"
proof -
  define x :: real where "x = pi / 1800000"
  have lo: "314 / 180000000 \<le> x" and hi: "x \<le> 315 / 180000000" and x0: "0 \<le> x"
    using pi_gt_314 pi_lt_315 by (simp_all add: x_def)
  have x3: "x ^ 3 \<le> (315 / 180000000) ^ 3" using hi x0 by (rule power_mono)
  have x5: "\<bar>x\<bar> ^ 5 \<le> (315 / 180000000) ^ 5" using hi x0 by (simp add: power_mono)
  have "17444 / 10 ^ 10 \<le>
        314 / 180000000 - (315 / 180000000) ^ 3 / 6 - (315 / 180000000) ^ 5 / (120::real)"
    by (simp add: power_divide)
  also have "\<dots> \<le> x - x ^ 3 / 6 - \<bar>x\<bar> ^ 5 / 120" using lo x3 x5 by linarith
  also have "\<dots> \<le> sin x" by (rule sin_lower5)
  finally show ?thesis by (simp add: x_def)
qed

lemma cos_kgp_lower:
  assumes "0 \<le> d" "d \<le> 22.3151"
  shows "9237 / 10 ^ 4 \<le> cos (toRad d)"
proof -
  have t0: "0 \<le> toRad d" using assms by (simp add: toRad_def)
  have "toRad d \<le> 22.3151 * 3.15 / 180"
  proof -
    have "d * pi \<le> 22.3151 * 3.15"
      using assms pi_lt_315 by (intro mult_mono) simp_all
    then show ?thesis by (simp add: toRad_def mult_ac)
  qed
  then have "(toRad d)\<^sup>2 \<le> (22.3151 * 3.15 / 180)\<^sup>2"
    using t0 by (intro power_mono) simp_all
  then have "9237 / 10 ^ 4 \<le> 1 - (toRad d)\<^sup>2 / 2" by (simp add: power_divide)
  also have "\<dots> \<le> cos (toRad d)" by (rule cos_lower2)
  finally show ?thesis .
qed

lemma haversineTerm_kgp_kgpNear: "(15 / 6371000)\<^sup>2 \<le> haversineTerm kgp kgpNear"
proof -
  define s where "s = sin (pi / 1800000)"
  define c1 where "c1 = cos (toRad 22.3149)"
  define c2 where "c2 = cos (toRad 22.3151)"
  have h: "haversineTerm kgp kgpNear = s * s + c1 * c2 * s * s"
    by (simp add: haversineTerm_def kgp_def kgpNear_def s_def c1_def c2_def toRad_def)
  have s: "17444 / 10 ^ 10 \<le> s" unfolding s_def by (rule sin_small_lower)
  have c1: "9237 / 10 ^ 4 \<le> c1" unfolding c1_def by (rule cos_kgp_lower) simp_all
  have c2: "9237 / 10 ^ 4 \<le> c2" unfolding c2_def by (rule cos_kgp_lower) simp_all
  have ss: "(17444 / 10 ^ 10) * (17444 / 10 ^ 10) \<le> s * s"
    using s by (intro mult_mono) simp_all
  have cc: "(9237 / 10 ^ 4) * (9237 / 10 ^ 4) \<le> c1 * c2"
    using c1 c2 by (intro mult_mono) simp_all
  have "(1 + (9237 / 10 ^ 4) * (9237 / 10 ^ 4)) * ((17444 / 10 ^ 10) * (17444 / 10 ^ 10))
        \<le> (1 + c1 * c2) * (s * s)"
  proof (rule mult_mono)
    show "1 + (9237 / 10 ^ 4) * (9237 / 10 ^ 4) \<le> 1 + c1 * c2" using cc by simp
    show "(17444 / 10 ^ 10) * (17444 / 10 ^ 10) \<le> s * s" by (rule ss)
    show "0 \<le> 1 + c1 * c2" using cc by simp
    show "(0::real) \<le> (17444 / 10 ^ 10) * (17444 / 10 ^ 10)" by simp
  qed
  moreover have "(15 / 6371000)\<^sup>2 \<le>
      (1 + (9237 / 10 ^ 4) * (9237 / 10 ^ 4)) * ((17444 / 10 ^ 10) * (17444 / 10 ^ 10 :: real))"
    by (simp add: power_divide)
  ultimately show ?thesis unfolding h by (simp add: algebra_simps)
qed

lemma kgp_kgpNear_far: "30 \<le> getDistance kgp kgpNear"
  using haversineTerm_kgp_kgpNear by (rule getDistance_ge_30)

lemma haversineTerm_kgp_kgpStep: "haversineTerm kgp kgpStep \<le> 5 / 10 ^ 12"
proof -
  have h: "haversineTerm kgp kgpStep = sin (pi / 3600000) * sin (pi / 3600000)"
    by (simp add: haversineTerm_def kgp_def kgpStep_def toRad_def)
  have "pi / 3600000 \<le> 315 / 360000000" using pi_lt_315 by simp
  then have "(pi / 3600000) * (pi / 3600000) \<le> (315 / 360000000) * (315 / 360000000)"
    by (intro mult_mono) simp_all
  then show ?thesis unfolding h using sin_sq_le [of "pi / 3600000"] by simp
qed

lemma kgp_kgpStep_near: "getDistance kgp kgpStep < 30"
  using haversineTerm_kgp_kgpStep by (rule getDistance_less_30)

lemma haversineTerm_north60: "haversineTerm north60 north60Step \<le> 5 / 10 ^ 12"
proof -
  define s where "s = sin (pi / 1800000)"
  define c2 where "c2 = cos (toRad 60.0002)"
  have c1: "cos (toRad 60) = 1 / 2" by (simp add: toRad_def cos_60)
  have h: "haversineTerm north60 north60Step = s * s + cos (toRad 60) * c2 * s * s"
    by (simp add: haversineTerm_def north60_def north60Step_def s_def c2_def toRad_def)
  have "pi / 1800000 \<le> 315 / 180000000" using pi_lt_315 by simp
  then have "(pi / 1800000) * (pi / 1800000) \<le> (315 / 180000000) * (315 / 180000000)"
    by (intro mult_mono) simp_all
  then have ss: "s * s \<le> (315 / 180000000) * (315 / 180000000)"
    unfolding s_def using sin_sq_le [of "pi / 1800000"] by linarith
  have s0: "0 \<le> s * s" by simp
  have "c2 \<le> 1" by (simp add: c2_def)
  then have "c2 * (s * s) \<le> 1 * (s * s)" using s0 by (rule mult_right_mono)
  then have "haversineTerm north60 north60Step \<le> (3 / 2) * (s * s)"
    unfolding h c1 by (simp add: algebra_simps)
  also have "\<dots> \<le> (3 / 2) * ((315 / 180000000) * (315 / 180000000))"
    using ss by simp
  also have "\<dots> \<le> 5 / 10 ^ 12" by simp
  finally show ?thesis .
qed

lemma north60_near: "getDistance north60 north60Step < 30"
  using haversineTerm_north60 by (rule getDistance_less_30)

section \<open>The fix callback\<close>

lemmas sql_defs = startTrackingSql_def initialSql_def deliverFixSql_def onFixSql_def isNew_def
  insertPoint_def persistedPoints_def rowCoordinate_def emptyDb_def Let_def

lemmas async_defs = startTrackingAsync_def initialAsync_def deliverFixAsync_def onFixAsync_def
  isNew_def persistExplored_def storedPoints_def Let_def

lemma kgpSqlOnce_eq:
  "explored kgpSqlOnce = [kgp] \<and> watcher kgpSqlOnce = Some (Subscription []) \<and>
   persistedPoints (db kgpSqlOnce) = [kgp]"
  by (simp add: kgpSqlOnce_def sql_defs kgp_def)

lemma kgpAsyncOnce_eq:
  "explored kgpAsyncOnce = [kgp] \<and> watcher kgpAsyncOnce = Some (Subscription []) \<and>
   storage kgpAsyncOnce = Some [kgp]"
  by (simp add: kgpAsyncOnce_def async_defs)

lemma separated_append:
  "separated (ps @ [c]) \<longleftrightarrow> separated ps \<and> list_all (\<lambda>p. 30 \<le> getDistance p c) ps"
  by (induction ps) auto

lemma isNew_iff: "isNew pts c \<longleftrightarrow> list_all (\<lambda>p. 30 \<le> getDistance p c) pts"
  by (auto simp: isNew_def list_ex_iff list_all_iff not_less)

text \<open>
  A callback whose captured array is the array the state holds at the fix keeps the points
  separated. This is the behaviour of the first fix after Start only.
\<close>

lemma onFixSql_fresh_separated:
  "separated (explored w) \<Longrightarrow>
   separated (explored (onFixSql (Subscription (explored w)) insertOk now c w))"
  by (simp add: onFixSql_def insertPoint_def Let_def separated_append isNew_iff)

lemma onFixAsync_fresh_separated:
  "separated (explored w) \<Longrightarrow>
   separated (explored (onFixAsync (Subscription (explored w)) setOk c w))"
  by (simp add: onFixAsync_def persistExplored_def Let_def separated_append isNew_iff)

text \<open>
  C1. The claim: after any sequence of fixes delivered one at a time, any two points of
  ExploredSet are at 30 metres or more from each other. In both variants, after a fresh
  start and Start, the fixes \<open>kgp\<close> and \<open>kgpStep\<close> (11 metres to the north) are both
  stored: the callback tests every fix against the array captured when Start was pressed,
  which is empty, and not against the points stored since.
\<close>

theorem stale_subscription_breaks_separation:
  "explored (deliverFixesSql [(kgp, True, 0), (kgpStep, True, 2000)]
              (startTrackingSql True initialSql)) = [kgp, kgpStep] \<and>
   explored (deliverFixesAsync [(kgp, True), (kgpStep, True)]
              (startTrackingAsync True initialAsync)) = [kgp, kgpStep] \<and>
   kgp \<noteq> kgpStep \<and> getDistance kgp kgpStep < 30 \<and> \<not> separated [kgp, kgpStep]"
proof -
  have "explored (deliverFixesSql [(kgp, True, 0), (kgpStep, True, 2000)]
          (startTrackingSql True initialSql)) = [kgp, kgpStep]"
    by (simp add: sql_defs)
  moreover have "explored (deliverFixesAsync [(kgp, True), (kgpStep, True)]
          (startTrackingAsync True initialAsync)) = [kgp, kgpStep]"
    by (simp add: async_defs)
  moreover have "kgp \<noteq> kgpStep" by (simp add: kgp_def kgpStep_def)
  moreover have "\<not> separated [kgp, kgpStep]" using kgp_kgpStep_near by simp
  ultimately show ?thesis using kgp_kgpStep_near by simp
qed

text \<open>
  C2. The claim: the same coordinate fed as two consecutive fixes gives one point in
  ExploredSet and in the store. In both variants, after a fresh start and Start, the fix
  \<open>kgp\<close> delivered twice is stored twice, in memory and in the store.
\<close>

theorem same_fix_twice_stored_twice:
  "explored (deliverFixesSql [(kgp, True, 0), (kgp, True, 2000)]
              (startTrackingSql True initialSql)) = [kgp, kgp] \<and>
   persistedPoints (db (deliverFixesSql [(kgp, True, 0), (kgp, True, 2000)]
              (startTrackingSql True initialSql))) = [kgp, kgp] \<and>
   explored (deliverFixesAsync [(kgp, True), (kgp, True)]
              (startTrackingAsync True initialAsync)) = [kgp, kgp] \<and>
   storage (deliverFixesAsync [(kgp, True), (kgp, True)]
              (startTrackingAsync True initialAsync)) = Some [kgp, kgp]"
proof -
  have "explored (deliverFixesSql [(kgp, True, 0), (kgp, True, 2000)]
          (startTrackingSql True initialSql)) = [kgp, kgp] \<and>
        persistedPoints (db (deliverFixesSql [(kgp, True, 0), (kgp, True, 2000)]
          (startTrackingSql True initialSql))) = [kgp, kgp]"
    by (simp add: sql_defs kgp_def)
  moreover have "explored (deliverFixesAsync [(kgp, True), (kgp, True)]
          (startTrackingAsync True initialAsync)) = [kgp, kgp] \<and>
        storage (deliverFixesAsync [(kgp, True), (kgp, True)]
          (startTrackingAsync True initialAsync)) = Some [kgp, kgp]"
    by (simp add: async_defs)
  ultimately show ?thesis by simp
qed

text \<open>
  C3. The claim: a fix is NEW and appended when its least distance to the points now in
  ExploredSet is 30 metres or more (or the set is empty), and REVISITED and not appended
  otherwise; the last-known coordinate becomes the fix in both cases. In both variants,
  once \<open>kgp\<close> is stored, a second fix at \<open>kgp\<close> is at distance 0 from the set, so it is
  not new for the set, and it is appended all the same; the last-known coordinate is
  updated.
\<close>

theorem revisited_fix_appended:
  "\<not> isNew (explored kgpSqlOnce) kgp \<and>
   explored (deliverFixSql True 2000 kgp kgpSqlOnce) = explored kgpSqlOnce @ [kgp] \<and>
   location (deliverFixSql True 2000 kgp kgpSqlOnce) = Some kgp \<and>
   \<not> isNew (explored kgpAsyncOnce) kgp \<and>
   explored (deliverFixAsync True kgp kgpAsyncOnce) = explored kgpAsyncOnce @ [kgp] \<and>
   location (deliverFixAsync True kgp kgpAsyncOnce) = Some kgp"
proof -
  have "\<not> isNew [kgp] kgp" by (simp add: isNew_def getDistance_self)
  moreover have "explored (deliverFixSql True 2000 kgp kgpSqlOnce) = [kgp, kgp] \<and>
      location (deliverFixSql True 2000 kgp kgpSqlOnce) = Some kgp"
    by (simp add: kgpSqlOnce_def sql_defs)
  moreover have "explored (deliverFixAsync True kgp kgpAsyncOnce) = [kgp, kgp] \<and>
      location (deliverFixAsync True kgp kgpAsyncOnce) = Some kgp"
    by (simp add: kgpAsyncOnce_def async_defs)
  ultimately show ?thesis using kgpSqlOnce_eq kgpAsyncOnce_eq by simp
qed

text \<open>
  In exact arithmetic the expression that \<^verbatim>\<open>getDistance\<close> spells out is the haversine
  formula of the specification, \<open>2 R atan2(\<surd>h, \<surd>(1 - h))\<close> with
  \<open>h = sin\<^sup>2(\<Delta>lat/2) + cos(lat1) cos(lat2) sin\<^sup>2(\<Delta>lon/2)\<close>, the angles converted from
  degrees to radians and \<open>R\<close> = 6,371,000 metres. This compares two formulas over the real
  numbers; it does not say what the doubles of the program return for every input.
\<close>

lemma getDistance_exact_haversine: "getDistance a b = haversine_spec a b"
  by (simp add: getDistance_def haversine_spec_def haversine_h_def radians_def toRad_def
      earthRadius_def Let_def power2_eq_square diff_divide_distrib left_diff_distrib mult.assoc)

text \<open>
  C7, as claimed: the fixes \<open>kgp\<close> = (22.3149, 87.3105) and \<open>kgpNear\<close> = (22.3151, 87.3107)
  are less than 30 metres apart. They are not: the haversine distance is about 30.3 metres.
\<close>

theorem kgp_pair_not_within_30m: "\<not> getDistance kgp kgpNear < 30"
  using kgp_kgpNear_far by simp

text \<open>
  C7, amended: the haversine distance between \<open>kgp\<close> and \<open>kgpNear\<close> is 30 metres or more,
  so the second fix is new with respect to the first, and after a fresh start, Start and
  the two fixes both variants hold two points, in memory and in the store.
\<close>

theorem kgp_second_fix_is_new:
  "30 \<le> getDistance kgp kgpNear \<and> isNew [kgp] kgpNear \<and>
   explored (deliverFixesSql [(kgp, True, 0), (kgpNear, True, 2000)]
              (startTrackingSql True initialSql)) = [kgp, kgpNear] \<and>
   persistedPoints (db (deliverFixesSql [(kgp, True, 0), (kgpNear, True, 2000)]
              (startTrackingSql True initialSql))) = [kgp, kgpNear] \<and>
   explored (deliverFixesAsync [(kgp, True), (kgpNear, True)]
              (startTrackingAsync True initialAsync)) = [kgp, kgpNear] \<and>
   storage (deliverFixesAsync [(kgp, True), (kgpNear, True)]
              (startTrackingAsync True initialAsync)) = Some [kgp, kgpNear]"
proof -
  have "isNew [kgp] kgpNear" using kgp_kgpNear_far by (simp add: isNew_def)
  moreover have "explored (deliverFixesSql [(kgp, True, 0), (kgpNear, True, 2000)]
          (startTrackingSql True initialSql)) = [kgp, kgpNear] \<and>
        persistedPoints (db (deliverFixesSql [(kgp, True, 0), (kgpNear, True, 2000)]
          (startTrackingSql True initialSql))) = [kgp, kgpNear]"
    by (simp add: sql_defs kgp_def kgpNear_def)
  moreover have "explored (deliverFixesAsync [(kgp, True), (kgpNear, True)]
          (startTrackingAsync True initialAsync)) = [kgp, kgpNear] \<and>
        storage (deliverFixesAsync [(kgp, True), (kgpNear, True)]
          (startTrackingAsync True initialAsync)) = Some [kgp, kgpNear]"
    by (simp add: async_defs)
  ultimately show ?thesis using kgp_kgpNear_far by simp
qed

section \<open>Memory and store\<close>

text \<open>
  C6, as claimed: a new point enters ExploredSet only once its write is confirmed. In the
  AsyncStorage variant the point is appended first and written by an effect afterwards:
  when that write fails, the point is in memory and the store holds nothing.
\<close>

theorem onFixAsync_keeps_unpersisted_point:
  "explored (deliverFixAsync False kgp (startTrackingAsync True initialAsync)) = [kgp] \<and>
   storedPoints (storage (deliverFixAsync False kgp (startTrackingAsync True initialAsync))) = []"
  by (simp add: async_defs)

text \<open>
  C6, amended: in the SQLite variant the fix callback appends the fix to ExploredSet
  exactly when its test says new and the insert succeeds, and then the table gains one row
  with the same coordinates; in every other case ExploredSet and the rows are unchanged.
  The callback therefore keeps ExploredSet equal to the persisted points whenever they
  were equal before it.
\<close>

theorem onFixSql_appends_iff_inserted:
  "explored (onFixSql sub insertOk now c w) =
     explored w @ (if isNew (capturedExplored sub) c \<and> insertOk then [c] else []) \<and>
   persistedPoints (db (onFixSql sub insertOk now c w)) =
     persistedPoints (db w) @ (if isNew (capturedExplored sub) c \<and> insertOk then [c] else [])"
  by (simp add: onFixSql_def insertPoint_def persistedPoints_def rowCoordinate_def Let_def)

lemma onFixSql_consistent:
  "explored w = persistedPoints (db w) \<Longrightarrow>
   explored (onFixSql sub insertOk now c w) = persistedPoints (db (onFixSql sub insertOk now c w))"
  by (simp add: onFixSql_def insertPoint_def persistedPoints_def rowCoordinate_def Let_def)

lemma deliverFixSql_consistent:
  "explored w = persistedPoints (db w) \<Longrightarrow>
   explored (deliverFixSql insertOk now c w) =
   persistedPoints (db (deliverFixSql insertOk now c w))"
  by (simp add: deliverFixSql_def onFixSql_consistent split: option.splits)

section \<open>Reset\<close>

text \<open>
  C5, as claimed: when the deletion fails, reset leaves ExploredSet as it was. In the
  AsyncStorage variant \<^verbatim>\<open>setExplored([])\<close> comes first and nothing looks at the outcome of the
  removal: with the removal and the later write both failing, the stored point stays in the
  store and ExploredSet is empty.
\<close>

theorem resetAsync_clears_on_failed_removal:
  "explored kgpAsyncOnce = [kgp] \<and>
   explored (resetAsync False False kgpAsyncOnce) = [] \<and>
   storage (resetAsync False False kgpAsyncOnce) = Some [kgp]"
  by (simp add: resetAsync_def kgpAsyncOnce_def async_defs)

text \<open>
  C5, amended: in the SQLite variant a reset confirmed with Clear is all-or-nothing: when
  the deletion succeeds ExploredSet and the table are both empty, when it fails both are
  as before; a reset answered with Cancel changes nothing. In the AsyncStorage variant,
  when the removal succeeds ExploredSet and the store are both left empty, whatever the
  write of the empty array that follows does; when the removal fails ExploredSet is
  emptied all the same, and the store keeps its value unless that write succeeds.
\<close>

theorem resetSql_all_or_nothing:
  "explored (resetSql Clear True w) = [] \<and>
   persistedPoints (db (resetSql Clear True w)) = [] \<and>
   explored (resetSql Clear False w) = explored w \<and>
   persistedPoints (db (resetSql Clear False w)) = persistedPoints (db w) \<and>
   resetSql Cancel deleteOk w = w \<and>
   explored (resetAsync rmOk setOk a) = [] \<and>
   storedPoints (storage (resetAsync True setOk a)) = [] \<and>
   storage (resetAsync rmOk setOk a) =
     (if setOk then Some [] else if rmOk then None else storage a)"
  by (simp add: resetSql_def deleteAll_def persistedPoints_def resetAsync_def
      persistExplored_def storedPoints_def Let_def)

text \<open>
  C8. Reset is idempotent. In the SQLite variant, with Clear pressed and deletions that go
  through: ExploredSet and the table are empty after the first reset and after the second,
  and neither reset writes an error line, so the \<^verbatim>\<open>DELETE\<close> on the already empty table is
  no error; after a first reset that went through, ExploredSet stays empty also when the
  second deletion fails. A reset on an empty ExploredSet leaves it empty, writes no error
  line when its deletion goes through, and hands the \<^verbatim>\<open>DELETE\<close> statement to the database
  all the same. In the AsyncStorage variant ExploredSet is empty after every reset, two
  resets whose calls resolve leave the store empty and no rejection behind, and a reset on
  an empty ExploredSet still calls \<^verbatim>\<open>removeItem\<close>.
\<close>

theorem reset_idempotent:
  "explored (resetSql Clear True w) = [] \<and>
   persistedPoints (db (resetSql Clear True w)) = [] \<and>
   consoleLog (resetSql Clear True w) = consoleLog w \<and>
   explored (resetSql Clear True (resetSql Clear True w)) = [] \<and>
   persistedPoints (db (resetSql Clear True (resetSql Clear True w))) = [] \<and>
   consoleLog (resetSql Clear True (resetSql Clear True w)) = consoleLog w \<and>
   explored (resetSql Clear ok2 (resetSql Clear True w)) = [] \<and>
   explored (resetSql Clear ok (w\<lparr>explored := []\<rparr>)) = [] \<and>
   consoleLog (resetSql Clear True (w\<lparr>explored := []\<rparr>)) = consoleLog w \<and>
   journal (db (resetSql Clear ok (w\<lparr>explored := []\<rparr>))) = journal (db w) @ [DeleteAll] \<and>
   explored (resetAsync rmOk setOk a) = [] \<and>
   explored (resetAsync rmOk2 setOk2 (resetAsync rmOk setOk a)) = [] \<and>
   storedPoints (storage (resetAsync True True (resetAsync True True a))) = [] \<and>
   unhandledRejections (resetAsync True True (resetAsync True True a)) =
     unhandledRejections a \<and>
   unhandledRejections (resetAsync True True (a\<lparr>explored := []\<rparr>)) = unhandledRejections a \<and>
   storageCalls (resetAsync rmOk setOk (a\<lparr>explored := []\<rparr>)) =
     storageCalls a @ [RemoveItem, SetItem []]"
  by (cases ok; cases ok2)
     (simp_all add: resetSql_def deleteAll_def resetAsync_def persistExplored_def
        persistedPoints_def storedPoints_def Let_def)

section \<open>Simulate Walk and reload\<close>

lemma insertEach_all_ok:
  "\<exists>d'. insertEach (\<lambda>i. True) nows i pts d = (Inr (), d') \<and>
        persistedPoints d' = persistedPoints d @ pts"
proof (induction pts arbitrary: i d)
  case Nil
  then show ?case by simp
next
  case (Cons p ps)
  define d1 where "d1 = snd (insertPoint True (latitude p) (longitude p) (nows i) d)"
  have 1: "insertPoint True (latitude p) (longitude p) (nows i) d = (Inr (), d1)"
    by (simp add: d1_def insertPoint_def Let_def)
  have 2: "persistedPoints d1 = persistedPoints d @ [p]"
    by (simp add: d1_def insertPoint_def Let_def persistedPoints_def rowCoordinate_def)
  from Cons.IH [of "Suc i" d1] show ?case by (auto simp: 1 2)
qed

lemma simulateWalk_all_ok:
  "explored (simulateWalk (\<lambda>i. True) nows w) = explored w @ newPoints (location w) \<and>
   persistedPoints (db (simulateWalk (\<lambda>i. True) nows w)) =
     persistedPoints (db w) @ newPoints (location w)"
proof -
  obtain d' where "insertEach (\<lambda>i. True) nows 0 (newPoints (location w)) (db w) = (Inr (), d')"
    and "persistedPoints d' = persistedPoints (db w) @ newPoints (location w)"
    using insertEach_all_ok by blast
  then show ?thesis by (simp add: simulateWalk_def Let_def)
qed

lemma toggleTrackingSql_consistent:
  "explored (toggleTrackingSql granted w) = explored w \<and>
   db (toggleTrackingSql granted w) = db w"
  by (simp add: toggleTrackingSql_def startTrackingSql_def stopTrackingSql_def)

lemma runEvents_consistent:
  "explored w = persistedPoints (db w) \<Longrightarrow>
   explored (runEvents es w) = persistedPoints (db (runEvents es w))"
proof (induction es w rule: runEvents.induct)
  case (1 w)
  then show ?case by simp
next
  case (2 granted es w)
  then show ?case by (simp add: toggleTrackingSql_consistent)
next
  case (3 c insertOk now es w)
  then show ?case by (simp add: deliverFixSql_consistent)
next
  case (4 nows es w)
  then show ?case by (simp add: simulateWalk_all_ok)
qed

lemma initDB_loaded: "explored (initDB True True w) = persistedPoints (db (initDB True True w))"
  by (simp add: initDB_def createTable_def selectAll_def persistedPoints_def Let_def)

lemma initDB_fresh:
  "explored (initDB createOk selectOk initialSql) =
   persistedPoints (db (initDB createOk selectOk initialSql))"
  by (simp add: initDB_def createTable_def selectAll_def persistedPoints_def Let_def
      initialSql_def emptyDb_def)

lemma reload_ok:
  "explored (reload True w) = persistedPoints (db w) \<and>
   persistedPoints (db (reload True w)) = persistedPoints (db w)"
  by (simp add: reload_def selectAll_def persistedPoints_def Let_def)

text \<open>A run that inserts: first launch, Start, and the two fixes of the scenario.\<close>

lemma runEvents_two_fixes:
  "explored (runEvents [Toggle True, Fix kgp True 0, Fix kgpNear True 2000]
              (initDB True True initialSql)) = [kgp, kgpNear]"
  by (simp add: initDB_def createTable_def selectAll_def toggleTrackingSql_def sql_defs)

text \<open>
  C9. Reload round trip of the SQLite variant. In every state, whatever ExploredSet holds,
  a reload whose read succeeds replaces ExploredSet with exactly the persisted points, in
  the order of their rows, writes no error line and leaves the table as it is. After the
  initial load succeeded on any table, or after a first launch on the empty table whatever
  the initial load did, and then any run of Start/Stop presses, fixes (inserts succeeding
  or not) and fully successful Simulate Walks, the points so installed are the points
  ExploredSet held just before the reload, in the same order and so as the same set.
\<close>

theorem reload_round_trip:
  "explored (reload True v) = persistedPoints (db v) \<and>
   persistedPoints (db (reload True v)) = persistedPoints (db v) \<and>
   consoleLog (reload True v) = consoleLog v \<and>
   explored (reload True (runEvents es (initDB True True w))) =
     persistedPoints (db (runEvents es (initDB True True w))) \<and>
   explored (reload True (runEvents es (initDB True True w))) =
     explored (runEvents es (initDB True True w)) \<and>
   set (explored (reload True (runEvents es (initDB True True w)))) =
     set (explored (runEvents es (initDB True True w))) \<and>
   explored (reload True (runEvents es (initDB createOk selectOk initialSql))) =
     persistedPoints (db (runEvents es (initDB createOk selectOk initialSql))) \<and>
   set (explored (reload True (runEvents es (initDB createOk selectOk initialSql)))) =
     set (explored (runEvents es (initDB createOk selectOk initialSql)))"
proof -
  have "consoleLog (reload True v) = consoleLog v"
    by (simp add: reload_def selectAll_def Let_def)
  then show ?thesis
    using runEvents_consistent [OF initDB_loaded, of es w]
      runEvents_consistent [OF initDB_fresh, of es createOk selectOk]
    by (simp add: reload_ok)
qed

lemma newPoints_eq:
  "newPoints loc =
     [\<lparr>latitude = baseLat loc, longitude = baseLon loc\<rparr>,
      \<lparr>latitude = baseLat loc + 0.0002, longitude = baseLon loc + 0.0002\<rparr>,
      \<lparr>latitude = baseLat loc + 0.0004, longitude = baseLon loc + 0.0004\<rparr>,
      \<lparr>latitude = baseLat loc + 0.0006, longitude = baseLon loc + 0.0006\<rparr>,
      \<lparr>latitude = baseLat loc + 0.0008, longitude = baseLon loc + 0.0008\<rparr>]"
proof -
  have "[0..<5] = [0, 1, 2, 3, 4]" by (simp add: upt_rec)
  then show ?thesis by (simp add: newPoints_def)
qed

lemma north60Sql_eq: "explored north60Sql = [north60] \<and> location north60Sql = Some north60"
  by (simp add: north60Sql_def sql_defs)

lemma newPoints_north60:
  "newPoints (Some north60) ! 0 = north60 \<and> newPoints (Some north60) ! 1 = north60Step"
  by (simp add: newPoints_eq baseLat_def baseLon_def north60_def north60Step_def)

text \<open>
  C10. Simulate Walk, with its five inserts succeeding, appends its five generated points
  to ExploredSet and to the table without any distance test; the points start at the base
  position and advance by 0.0002 degrees of latitude and of longitude each. After Start
  and one fix at 60 degrees north, the walk leaves in ExploredSet its first two points,
  \<open>north60\<close> and \<open>north60Step\<close>, which differ and are less than 30 metres apart.
\<close>

theorem simulateWalk_skips_deduplication:
  "explored (simulateWalk (\<lambda>i. True) nows w) = explored w @ newPoints (location w) \<and>
   persistedPoints (db (simulateWalk (\<lambda>i. True) nows w)) =
     persistedPoints (db w) @ newPoints (location w) \<and>
   newPoints loc =
     [\<lparr>latitude = baseLat loc, longitude = baseLon loc\<rparr>,
      \<lparr>latitude = baseLat loc + 0.0002, longitude = baseLon loc + 0.0002\<rparr>,
      \<lparr>latitude = baseLat loc + 0.0004, longitude = baseLon loc + 0.0004\<rparr>,
      \<lparr>latitude = baseLat loc + 0.0006, longitude = baseLon loc + 0.0006\<rparr>,
      \<lparr>latitude = baseLat loc + 0.0008, longitude = baseLon loc + 0.0008\<rparr>] \<and>
   explored (simulateWalk (\<lambda>i. True) (\<lambda>i. 1000) north60Sql) =
     north60 # newPoints (Some north60) \<and>
   newPoints (Some north60) ! 0 = north60 \<and>
   newPoints (Some north60) ! 1 = north60Step \<and>
   north60 \<noteq> north60Step \<and>
   getDistance north60 north60Step < 30"
  using simulateWalk_all_ok [of nows w] simulateWalk_all_ok [of "\<lambda>i. 1000" north60Sql]
    newPoints_eq [of loc] newPoints_north60 north60_near north60Sql_eq
  by (simp add: north60_def north60Step_def)

end
